theory Spec2Isabelle
  imports Main
begin

section \<open>Messages and the shared graph state (graph.py)\<close>

text \<open>
  Python strings are modelled as \<^typ>\<open>string\<close>, the UTF-8 bytes of the text; a character
  outside ASCII is written byte by byte.

  A tool call is the dictionary that \<open>AIMessage.tool_calls\<close> holds: the keys
  \<open>name\<close>, \<open>args\<close> and \<open>id\<close>. The argument dictionary is an association list from
  argument names to values.
\<close>

type_synonym tool_args = "(string \<times> string) list"

record tool_call =
  tc_name :: string
  tc_args :: tool_args
  tc_id :: string

text \<open>
  \<open>AiMessage = Union[SystemMessage, HumanMessage, AIMessage, ToolMessage]\<close>. Only an
  \<open>AIMessage\<close> has the attribute \<open>tool_calls\<close>.
\<close>

datatype message =
    is_SystemMessage: SystemMessage (content: string)
  | is_HumanMessage: HumanMessage (content: string)
  | is_AIMessage: AIMessage (content: string) (tool_calls: "tool_call list")
  | is_ToolMessage: ToolMessage (tool_call_id: string) (content: string)

text \<open>
  \<open>class GraphState(TypedDict): messages: Annotated[List[AiMessage], "messages"]\<close>
\<close>

record GraphState =
  messages :: "message list"

section \<open>Exceptions\<close>

text \<open>
  The exceptions that the modelled code raises itself are \<open>NameError\<close> (an unregistered
  tool) and \<open>IndexError\<close> (\<open>messages[-1]\<close> on an empty list). \<open>OtherException\<close> stands
  for any other subclass of \<open>Exception\<close> that the chat model or a tool raises; its
  argument is the text that \<open>str(e)\<close> gives.
\<close>

datatype exn =
    NameError string
  | IndexError string
  | OtherException string

fun str_exn :: "exn \<Rightarrow> string" where
  "str_exn (NameError s) = s"
| "str_exn (IndexError s) = s"
| "str_exn (OtherException s) = s"

section \<open>The chat model (agent_base.py)\<close>

text \<open>
  \<open>AgentBase\<close> is a \<open>ChatOpenAI\<close>; its \<open>invoke\<close> is a network call. It is a parameter
  of the model: a function from the messages sent to either the exception raised or the
  content and tool calls of the \<open>AIMessage\<close> returned.
\<close>

type_synonym chat_model = "message list \<Rightarrow> exn + string \<times> tool_call list"

text \<open>\<open>def call(self, messages): return self.invoke(input=messages)\<close>\<close>

definition call :: "chat_model \<Rightarrow> message list \<Rightarrow> exn + message" where
  "call model msgs =
     (case model msgs of
        Inl e \<Rightarrow> Inl e
      | Inr (c, tcs) \<Rightarrow> Inr (AIMessage c tcs))"

text \<open>
  \<open>WORLD_LIBRARIAN_PROMPT\<close>: the triple-quoted text starts and ends with a line break.
\<close>

definition WORLD_LIBRARIAN_PROMPT_lines :: "string list" where
  "WORLD_LIBRARIAN_PROMPT_lines = [
    ''Role:'',
    ''You are the World Librarian. You are the final custodian of a locked fictional world.'',
    [],
    ''# Core Workflow'',
    ''1. Initialization'',
    ''- You will receive as context a world state model describing a fictional or reference world.'',
    ''2. Query & Refinement'',
    ''- Collaborate with the user to expand, test, and adjust the world.'',
    ''  - The user leads the exploration, choosing where to expand, mutate, or query the world.'',
    ''  - You may ask clarifying questions if an area is underspecified, potentially inconsistent, or holds rich opportunities for expansion.'',
    ''  - You may offer optional elaborations or suggestions when they would strengthen coherence, highlight tension, or open creative directions '' @ [CHR 0xE2, CHR 0x80, CHR 0x94] @ '' but the user decides whether to pursue them.'',
    ''- The draft is only mutable through explicit commands.'',
    [],
    ''# Commands & Rules'',
    ''## Queries'',
    ''- Any input without a slash command is a query.'',
    ''- Queries ask: '' @ [CHR 0xE2, CHR 0x80, CHR 0x9C] @ ''What is true in the draft world right now?'' @ [CHR 0xE2, CHR 0x80, CHR 0x9D],
    ''- Answer based only on the current draft state.'',
    ''- If the information exists '' @ [CHR 0xE2, CHR 0x86, CHR 0x92] @ '' return it.'',
    ''- If it does not exist '' @ [CHR 0xE2, CHR 0x86, CHR 0x92] @ '' respond with: '' @ [CHR 0xE2, CHR 0x80, CHR 0x9C] @ ''I do not know.'' @ [CHR 0xE2, CHR 0x80, CHR 0x9D],
    ''  - If the user asks for extrapolation, generate a plausible and consistent answer, clearly marking it as Extrapolation (not canon) unless confirmed with a /set.'',
    ''- Queries never alter the draft.'',
    [],
    ''1. Direct Facts'',
    ''- If the queried information already exists in the world state, report it exactly as it is.'',
    ''- No extrapolation, no consequences, no creative additions '' @ [CHR 0xE2, CHR 0x80, CHR 0x94] @ '' just the established fact.'',
    ''- If the user'' @ [CHR 0x27] @ ''s phrasing contradicts canon, respond with the correction.'',
    ''2. Extrapolations (only when explicitly requested)'',
    ''- If the queried fact does not exist:'',
    ''  - Respond with '' @ [CHR 0xE2, CHR 0x80, CHR 0x9C] @ ''I do not know.'' @ [CHR 0xE2, CHR 0x80, CHR 0x9D],
    ''- If the user follows up with an extrapolation request, then apply:'',
    ''  - Consistency Check '' @ [CHR 0xE2, CHR 0x86, CHR 0x92] @ '' ensure the extrapolation doesn'' @ [CHR 0x27] @ ''t contradict existing canon.'',
    ''  - Consequence Exploration '' @ [CHR 0xE2, CHR 0x86, CHR 0x92] @ '' highlight ripple effects, tensions, or logical implications.'',
    ''  - Neutral Defaults '' @ [CHR 0xE2, CHR 0x86, CHR 0x92] @ '' avoid introducing flashy or elaborate details unless required for consistency.'',
    [],
    ''## Mutations (/set)'',
    ''- Inputs prefixed with /set are mutation requests.'',
    ''- A mutation adds or changes facts in the draft world.'',
    ''- Behavior:'',
    ''  - If consistent with existing facts '' @ [CHR 0xE2, CHR 0x86, CHR 0x92] @ '' accept and integrate.'',
    ''  - If inconsistent '' @ [CHR 0xE2, CHR 0x86, CHR 0x92] @ '' reject and explain why.'',
    ''- Always confirm whether a mutation is accepted or rejected.'',
    [],
    ''## Overrides (/force)'',
    ''- Inputs prefixed with /force act like /set, but they override consistency checks.'',
    ''- Use only when the user explicitly wants to correct contradictions or deliberately reshape the world.'',
    ''- Always confirm that the override was applied.'',
    [],
    ''## Finalization (/finish)'',
    ''- When the user issues /finish, output the full world state in structured format.'',
    ''- After this, no further mutations are allowed.'',
    [],
    ''# Tone'',
    ''- Be conversational and collaborative, like a co-writer helping to research an imaginative world.'',
    ''- Offer clarifications and suggest refinements when inconsistencies are spotted.'',
    ''- Treat canon as inflexible unless /set or /force is used.''
   ]"

definition WORLD_LIBRARIAN_PROMPT :: string where
  "WORLD_LIBRARIAN_PROMPT =
     CHR 0x0A # concat (map (\<lambda>l. l @ [CHR 0x0A]) WORLD_LIBRARIAN_PROMPT_lines)"

section \<open>SystemHelper (graph.py)\<close>

text \<open>
  A tool is known to the helper by its \<open>invoke\<close>: from the argument dictionary to the
  exception raised or to \<open>str(output)\<close>. The registry is a dictionary from tool names to
  tools.
\<close>

type_synonym tool = "tool_args \<Rightarrow> exn + string"

type_synonym registry = "string \<rightharpoonup> tool"

record SystemHelper =
  self_llm :: chat_model
  self_tool_registry :: registry

text \<open>
  \<open>def __init__(self, llm, tools=None)\<close>: \<open>self._tool_registry = tools if tools else {}\<close>.
\<close>

definition SystemHelper_init :: "chat_model \<Rightarrow> registry option \<Rightarrow> SystemHelper" where
  "SystemHelper_init model tools =
     \<lparr>self_llm = model,
      self_tool_registry = (case tools of None \<Rightarrow> Map.empty | Some t \<Rightarrow> t)\<rparr>"

text \<open>\<open>_call_agent\<close>: \<open>return self._llm.call(messages)\<close>\<close>

definition call_agent :: "SystemHelper \<Rightarrow> message list \<Rightarrow> exn + message" where
  "call_agent self msgs = call (self_llm self) msgs"

text \<open>
  The message of the \<open>NameError\<close>: \<open>f"(warning sign) Tool {tool_name} not found in registry"\<close>,
  where the sign is U+26A0 U+FE0F.
\<close>

definition tool_not_found_text :: "string \<Rightarrow> string" where
  "tool_not_found_text tool_name =
     [CHR 0xE2, CHR 0x9A, CHR 0xA0, CHR 0xEF, CHR 0xB8, CHR 0x8F] @ '' Tool '' @ tool_name
       @ '' not found in registry''"

text \<open>
  \<open>_call_tool\<close>: raises \<open>NameError\<close> when the name is not a key of the registry; otherwise
  invokes the tool, whose exception (if any) propagates, and returns a one-element list.
\<close>

definition call_tool :: "SystemHelper \<Rightarrow> string \<Rightarrow> tool_args \<Rightarrow> string \<Rightarrow> exn + message list" where
  "call_tool self tool_name tool_args call_id =
     (case self_tool_registry self tool_name of
        None \<Rightarrow> Inl (NameError (tool_not_found_text tool_name))
      | Some t \<Rightarrow>
          (case t tool_args of
             Inl e \<Rightarrow> Inl e
           | Inr output \<Rightarrow> Inr [ToolMessage call_id output]))"

text \<open>
  \<open>invoke\<close>: the \<open>try\<close> appends the response, the \<open>except Exception\<close> appends an
  \<open>AIMessage\<close> whose content is \<open>str(e)\<close>. Console output is not modelled.
\<close>

definition invoke :: "SystemHelper \<Rightarrow> GraphState \<Rightarrow> GraphState" where
  "invoke self state =
     (case call_agent self (messages state) of
        Inr response \<Rightarrow> state\<lparr>messages := messages state @ [response]\<rparr>
      | Inl e \<Rightarrow> state\<lparr>messages := messages state @ [AIMessage (str_exn e) []]\<rparr>)"

text \<open>
  \<open>invoke_tool\<close>: \<open>messages[-1]\<close> is outside the \<open>try\<close>, so on an empty list the
  \<open>IndexError\<close> leaves the function. A last message without the attribute
  \<open>tool_calls\<close>, or with an empty list of them, gives \<open>{"messages": messages}\<close>. Otherwise
  the first tool call is taken and called inside the \<open>try\<close>.
\<close>

definition invoke_tool :: "SystemHelper \<Rightarrow> GraphState \<Rightarrow> exn + GraphState" where
  "invoke_tool self state =
     (let msgs = messages state in
      if msgs = [] then Inl (IndexError ''list index out of range'')
      else
        (case last msgs of
           AIMessage c (t # rest) \<Rightarrow>
             (case call_tool self (tc_name t) (tc_args t) (tc_id t) of
                Inr response \<Rightarrow> Inr (state\<lparr>messages := messages state @ response\<rparr>)
              | Inl e \<Rightarrow> Inr (state\<lparr>messages := messages state @ [AIMessage (str_exn e) []]\<rparr>))
         | _ \<Rightarrow> Inr \<lparr>messages = msgs\<rparr>))"

section \<open>Tools and nodes (agent.py)\<close>

text \<open>
  \<open>def calculator(expression: str) -> str\<close>: logs the expression and returns it.
\<close>

definition calculator :: "string \<Rightarrow> string" where
  "calculator expression = expression"

text \<open>
  The \<open>@tool\<close> decorator turns \<open>calculator\<close> into a tool whose \<open>invoke\<close> takes the
  argument dictionary, checks it against the signature and calls the function with the
  value of \<open>expression\<close>. The library rejects two kinds of dictionary with an exception
  of its own: one whose key \<open>type\<close> holds \<open>tool_call\<close>, which it reads as a tool call
  and not as arguments (with values that are strings, reading its \<open>id\<close> and \<open>args\<close>
  fails), and one without the key \<open>expression\<close> (a validation error). That exception,
  class and text, belongs to the library; it is a parameter, the function \<open>rejects\<close>
  from the dictionary to the exception raised.
\<close>

type_synonym tool_rejection = "tool_args \<Rightarrow> exn"

definition calculator_tool :: "tool_rejection \<Rightarrow> tool" where
  "calculator_tool rejects tool_args =
     (if map_of tool_args ''type'' = Some ''tool_call'' then Inl (rejects tool_args)
      else
        (case map_of tool_args ''expression'' of
           None \<Rightarrow> Inl (rejects tool_args)
         | Some expression \<Rightarrow> Inr (calculator expression)))"

text \<open>\<open>tool_registry = {tool.name: tool for tool in tools}\<close> with \<open>tools = [calculator]\<close>\<close>

definition tool_registry :: "tool_rejection \<Rightarrow> registry" where
  "tool_registry rejects = [''calculator'' \<mapsto> calculator_tool rejects]"

text \<open>
  \<open>marshall = SystemHelper(llm, tools=tool_registry)\<close>, for a given chat model.
\<close>

definition marshall_of :: "tool_rejection \<Rightarrow> chat_model \<Rightarrow> SystemHelper" where
  "marshall_of rejects model = SystemHelper_init model (Some (tool_registry rejects))"

text \<open>
  The nodes of the graph are \<open>"agent"\<close> and \<open>"librarian"\<close>; \<open>END\<close> ends the run. A node
  returns a \<open>Command\<close>: the update of the key \<open>messages\<close> (or no update) and the node
  to go to.
\<close>

datatype node = Agent | Librarian | END

record Command =
  update :: "message list option"
  goto :: node

text \<open>
  \<open>generator\<close>: \<open>state["messages"][-1]\<close> is read from the state that \<open>invoke\<close> returned,
  which is never empty.
\<close>

definition generator :: "SystemHelper \<Rightarrow> GraphState \<Rightarrow> Command" where
  "generator marshall state0 =
     (let state = invoke marshall state0;
          response = last (messages state)
      in \<lparr>update = Some [SystemMessage WORLD_LIBRARIAN_PROMPT, response],
          goto = Librarian\<rparr>)"

text \<open>
  \<open>librarian\<close>: \<open>ask\<close> is the line that \<open>input\<close> returns. The state handed to
  \<open>marshall.invoke\<close> is a new dictionary; the state it returns is only used to print the
  content of its last message. The command has no update.
\<close>

definition librarian_invoked :: "SystemHelper \<Rightarrow> string \<Rightarrow> GraphState \<Rightarrow> GraphState" where
  "librarian_invoked marshall ask state =
     invoke marshall \<lparr>messages = messages state @ [HumanMessage ask]\<rparr>"

definition librarian :: "SystemHelper \<Rightarrow> string \<Rightarrow> GraphState \<Rightarrow> Command" where
  "librarian marshall ask state =
     (let printed = content (last (messages (librarian_invoked marshall ask state)))
      in \<lparr>update = None, goto = END\<rparr>)"

section \<open>The compiled graph (agent.py, LangGraph)\<close>

text \<open>
  \<open>StateGraph(GraphState)\<close> keeps each key of the state in a channel. A key annotated with
  a callable of two arguments gets a channel that folds every update into the old value
  with that callable; any other key gets a channel that keeps the last value written. The
  annotation of \<open>messages\<close> is \<open>Annotated[List[AiMessage], "messages"]\<close>: its metadata is a
  string, not a callable, so the key is a last-value channel and an update replaces the
  list. The methods of \<open>SystemHelper\<close> are written for such a channel: \<open>invoke\<close> and
  \<open>invoke_tool\<close> return the whole list of messages, not the messages they added.
\<close>

datatype channel =
    LastValue
  | BinaryOperatorAggregate "message list \<Rightarrow> message list \<Rightarrow> message list"

definition channel_update :: "channel \<Rightarrow> message list \<Rightarrow> message list \<Rightarrow> message list" where
  "channel_update ch old new =
     (case ch of LastValue \<Rightarrow> new | BinaryOperatorAggregate f \<Rightarrow> f old new)"

definition messages_channel :: channel where
  "messages_channel = LastValue"

definition apply_command :: "GraphState \<Rightarrow> Command \<Rightarrow> GraphState" where
  "apply_command state c =
     (case update c of
        None \<Rightarrow> state
      | Some ms \<Rightarrow> state\<lparr>messages := channel_update messages_channel (messages state) ms\<rparr>)"

text \<open>
  \<open>builder.add_node("agent", generator)\<close>, \<open>builder.add_node("librarian", librarian)\<close>,
  \<open>builder.set_entry_point("agent")\<close>, \<open>builder.add_edge("librarian", END)\<close>.
\<close>

fun node_fn :: "SystemHelper \<Rightarrow> string \<Rightarrow> node \<Rightarrow> GraphState \<Rightarrow> Command" where
  "node_fn marshall ask Agent state = generator marshall state"
| "node_fn marshall ask Librarian state = librarian marshall ask state"
| "node_fn marshall ask END state = \<lparr>update = None, goto = END\<rparr>"

text \<open>
  One step runs the current node and applies its command. The run stops at \<open>END\<close>; the
  number of steps is bounded by the recursion limit of the graph (25 by default), and a
  run that exceeds it has no result.
\<close>

fun graph_run :: "nat \<Rightarrow> SystemHelper \<Rightarrow> string \<Rightarrow> node \<Rightarrow> GraphState \<Rightarrow> GraphState option" where
  "graph_run fuel marshall ask END state = Some state"
| "graph_run 0 marshall ask n state = None"
| "graph_run (Suc fuel) marshall ask n state =
     (let c = node_fn marshall ask n state
      in graph_run fuel marshall ask (goto c) (apply_command state c))"

definition recursion_limit :: nat where
  "recursion_limit = 25"

definition graph_invoke :: "SystemHelper \<Rightarrow> string \<Rightarrow> GraphState \<Rightarrow> GraphState option" where
  "graph_invoke marshall ask inputs = graph_run recursion_limit marshall ask Agent inputs"

section \<open>Stubs for the examples\<close>

text \<open>
  A chat model that always answers with the same text, one that always fails, one that
  answers when it is sent at most two messages and fails when it is sent more (in a run
  from a seed of two messages: the generator's call is answered, the librarian's fails), a
  rejection of argument dictionaries, and a tool that always fails; the seed of the
  scenario, a seed of three messages, the state that the generator leaves, and a state
  whose last message requests the calculator twice.
\<close>

definition stub_llm :: chat_model where
  "stub_llm msgs = Inr (''A city of canals.'', [])"

definition failing_llm :: chat_model where
  "failing_llm msgs = Inl (OtherException ''Connection error.'')"

definition flaky_llm :: chat_model where
  "flaky_llm msgs =
     (if length msgs \<le> 2 then Inr (''A city of canals.'', [])
      else Inl (OtherException ''Connection error.''))"

definition stub_rejects :: tool_rejection where
  "stub_rejects tool_args = OtherException ''invalid tool input''"

definition failing_tool :: tool where
  "failing_tool tool_args = Inl (OtherException ''division by zero'')"

definition failing_marshall :: SystemHelper where
  "failing_marshall = SystemHelper_init stub_llm (Some [''calculator'' \<mapsto> failing_tool])"

definition seed_state :: GraphState where
  "seed_state =
     \<lparr>messages = [SystemMessage ''You are a generator'', HumanMessage ''Describe a city'']\<rparr>"

definition long_seed_state :: GraphState where
  "long_seed_state =
     \<lparr>messages = [SystemMessage ''You are a generator'', HumanMessage ''Describe a city'',
                  HumanMessage ''It lies by the sea'']\<rparr>"

definition world_state :: GraphState where
  "world_state =
     \<lparr>messages = [SystemMessage WORLD_LIBRARIAN_PROMPT, AIMessage ''A city of canals.'' []]\<rparr>"

definition calculator_call :: "string \<Rightarrow> string \<Rightarrow> tool_call" where
  "calculator_call expression call_id =
     \<lparr>tc_name = ''calculator'', tc_args = [(''expression'', expression)], tc_id = call_id\<rparr>"

definition tool_request_state :: GraphState where
  "tool_request_state =
     \<lparr>messages = [HumanMessage ''What is 2+2?'',
                  AIMessage [] [calculator_call ''2+2'' ''c1'', calculator_call ''3+3'' ''c2'']]\<rparr>"

definition unknown_tool_state :: GraphState where
  "unknown_tool_state =
     \<lparr>messages = [HumanMessage ''What is the weather?'',
                  AIMessage [] [\<lparr>tc_name = ''weather'', tc_args = [], tc_id = ''c7''\<rparr>]]\<rparr>"

section \<open>Facts about the helper and the nodes\<close>

lemma invoke_appends:
  "messages (invoke m s) = messages s @
     [case self_llm m (messages s) of
        Inl e \<Rightarrow> AIMessage (str_exn e) []
      | Inr (c, tcs) \<Rightarrow> AIMessage c tcs]"
  by (simp add: invoke_def call_agent_def call_def split: sum.splits prod.splits)

lemma last_invoke:
  "last (messages (invoke m s)) =
     (case self_llm m (messages s) of
        Inl e \<Rightarrow> AIMessage (str_exn e) []
      | Inr (c, tcs) \<Rightarrow> AIMessage c tcs)"
  by (simp add: invoke_appends)

lemma last_invoke_is_AIMessage: "is_AIMessage (last (messages (invoke m s)))"
  by (simp add: last_invoke split: sum.splits prod.splits)

lemma invoke_appends_last:
  "messages (invoke m s) = messages s @ [last (messages (invoke m s))]"
  by (simp add: invoke_appends)

lemma generator_command:
  "generator m s =
     \<lparr>update = Some [SystemMessage WORLD_LIBRARIAN_PROMPT, last (messages (invoke m s))],
      goto = Librarian\<rparr>"
  by (simp add: generator_def Let_def)

lemma librarian_command: "librarian m ask s = \<lparr>update = None, goto = END\<rparr>"
  by (simp add: librarian_def Let_def)

lemma apply_generator:
  "messages (apply_command s (generator m s)) =
     [SystemMessage WORLD_LIBRARIAN_PROMPT, last (messages (invoke m s))]"
  by (simp add: generator_command apply_command_def channel_update_def messages_channel_def)

lemma channel_update_cases:
  "channel_update LastValue old new = new"
  "channel_update (BinaryOperatorAggregate f) old new = f old new"
  by (simp_all add: channel_update_def)

lemma apply_librarian: "apply_command s (librarian m ask s) = s"
  by (simp add: librarian_command apply_command_def)

lemma graph_invoke_result:
  "graph_invoke m ask s =
     Some (s\<lparr>messages := [SystemMessage WORLD_LIBRARIAN_PROMPT, last (messages (invoke m s))]\<rparr>)"
  by (simp add: graph_invoke_def recursion_limit_def eval_nat_numeral generator_command
      librarian_command apply_command_def channel_update_def messages_channel_def)

lemma invoke_tool_dispatch:
  assumes "messages s \<noteq> []" and "last (messages s) = AIMessage c (t # rest)"
  shows "invoke_tool m s =
     (case call_tool m (tc_name t) (tc_args t) (tc_id t) of
        Inr response \<Rightarrow> Inr (s\<lparr>messages := messages s @ response\<rparr>)
      | Inl e \<Rightarrow> Inr (s\<lparr>messages := messages s @ [AIMessage (str_exn e) []]\<rparr>))"
  using assms by (simp add: invoke_tool_def Let_def)

lemma invoke_tool_skip:
  assumes "messages s \<noteq> []" and "last (messages s) = AIMessage c []"
  shows "invoke_tool m s = Inr s"
  using assms by (simp add: invoke_tool_def Let_def)

lemma call_tool_length: "call_tool m n a i = Inr response \<Longrightarrow> length response = 1"
  by (auto simp: call_tool_def split: option.splits sum.splits)

lemma invoke_tool_extends:
  assumes "invoke_tool m s = Inr s'"
  shows "\<exists>rs. messages s' = messages s @ rs \<and> length rs \<le> 1"
proof (cases "messages s = []")
  case True
  with assms show ?thesis by (simp add: invoke_tool_def Let_def)
next
  case False
  show ?thesis
  proof (cases "last (messages s)")
    case (AIMessage c tcs)
    show ?thesis
    proof (cases tcs)
      case Nil
      with False AIMessage assms have "s' = s" by (simp add: invoke_tool_skip)
      then show ?thesis by simp
    next
      case (Cons t rest)
      with False AIMessage have d: "invoke_tool m s =
          (case call_tool m (tc_name t) (tc_args t) (tc_id t) of
             Inr response \<Rightarrow> Inr (s\<lparr>messages := messages s @ response\<rparr>)
           | Inl e \<Rightarrow> Inr (s\<lparr>messages := messages s @ [AIMessage (str_exn e) []]\<rparr>))"
        by (simp add: invoke_tool_dispatch)
      show ?thesis
      proof (cases "call_tool m (tc_name t) (tc_args t) (tc_id t)")
        case (Inl e)
        with d assms have "s' = s\<lparr>messages := messages s @ [AIMessage (str_exn e) []]\<rparr>" by simp
        then show ?thesis by simp
      next
        case (Inr response)
        with d assms have "s' = s\<lparr>messages := messages s @ response\<rparr>" by simp
        moreover from Inr have "length response = 1" by (rule call_tool_length)
        ultimately show ?thesis by simp
      qed
    qed
  qed (use False assms in \<open>auto simp: invoke_tool_def Let_def\<close>)
qed

section \<open>The generator step\<close>

text \<open>
  C1, as stated: for a run seeded with one System and one Human message the conversation
  state goes from length 2 to length 4 at the Generator step. It does not: the update of
  the generator's command replaces the messages, and the state after the step holds the
  two messages of the update.
\<close>

theorem generator_seed_length_counterexample:
  "length (messages seed_state) = 2 \<and>
   length (messages (apply_command seed_state (generator (marshall_of stub_rejects stub_llm) seed_state))) \<noteq> 4"
  by (simp add: seed_state_def apply_generator)

text \<open>
  C1, amended: the Generator step calls the model once, which extends the state it was
  given by one Assistant message; its command carries the message delta
  [new System message, Assistant response] and goes to the Librarian; the state of the run
  after the step is exactly that delta, of length 2.
\<close>

theorem generator_step:
  "is_AIMessage (last (messages (invoke m s))) \<and>
   messages (invoke m s) = messages s @ [last (messages (invoke m s))] \<and>
   generator m s =
     \<lparr>update = Some [SystemMessage WORLD_LIBRARIAN_PROMPT, last (messages (invoke m s))],
      goto = Librarian\<rparr> \<and>
   messages (apply_command s (generator m s)) =
     [SystemMessage WORLD_LIBRARIAN_PROMPT, last (messages (invoke m s))] \<and>
   length (messages (apply_command s (generator m s))) = 2"
proof -
  have "is_AIMessage (last (messages (invoke m s)))"
    by (rule last_invoke_is_AIMessage)
  moreover have "messages (invoke m s) = messages s @ [last (messages (invoke m s))]"
    by (rule invoke_appends_last)
  moreover note generator_command [of m s] apply_generator [of s m]
  ultimately show ?thesis by simp
qed

section \<open>Growth of the conversation state\<close>

text \<open>
  C2, as stated: within a run the length of the conversation state never decreases and no
  existing message is removed. A run seeded with three messages has two after the
  Generator step, and the seed's messages are gone.
\<close>

theorem run_length_counterexample:
  "length (messages long_seed_state) = 3 \<and>
   length (messages (apply_command long_seed_state
      (generator (marshall_of stub_rejects stub_llm) long_seed_state))) = 2 \<and>
   graph_invoke (marshall_of stub_rejects stub_llm) ''What is the population?'' long_seed_state =
     Some \<lparr>messages = [SystemMessage WORLD_LIBRARIAN_PROMPT, AIMessage ''A city of canals.'' []]\<rparr>"
  by (simp add: long_seed_state_def apply_generator graph_invoke_result last_invoke
      marshall_of_def SystemHelper_init_def stub_llm_def)

text \<open>
  C2, amended: every call of \<open>invoke\<close>, on every state (the empty one too), returns the
  messages it was given followed by exactly one new message, and every call of
  \<open>invoke_tool\<close> that returns gives the messages it was given followed by at most one new
  message, so inside a step the length grows by the number of messages appended and no
  existing message is altered or removed. Between steps the state of the run is what the
  commands of the nodes make of it: the Librarian step leaves it as it was, and after the
  Generator step it holds two messages, whatever it held before.
\<close>

theorem helper_calls_append_only:
  "(\<exists>r. messages (invoke m s) = messages s @ [r]) \<and>
   length (messages (invoke m s)) = length (messages s) + 1 \<and>
   (\<forall>s'. invoke_tool m s = Inr s' \<longrightarrow>
      (\<exists>rs. messages s' = messages s @ rs \<and> length rs \<le> 1) \<and>
      length (messages s) \<le> length (messages s')) \<and>
   apply_command s (librarian m ask s) = s \<and>
   length (messages (apply_command s (generator m s))) = 2"
proof -
  have "\<exists>r. messages (invoke m s) = messages s @ [r]"
    using invoke_appends_last [of m s] by blast
  moreover have "length (messages (invoke m s)) = length (messages s) + 1"
    by (simp add: invoke_appends)
  moreover have "\<forall>s'. invoke_tool m s = Inr s' \<longrightarrow>
      (\<exists>rs. messages s' = messages s @ rs \<and> length rs \<le> 1) \<and>
      length (messages s) \<le> length (messages s')"
  proof (intro allI impI)
    fix s'
    assume "invoke_tool m s = Inr s'"
    then have e: "\<exists>rs. messages s' = messages s @ rs \<and> length rs \<le> 1"
      by (rule invoke_tool_extends)
    then have "length (messages s) \<le> length (messages s')"
      by auto
    with e show "(\<exists>rs. messages s' = messages s @ rs \<and> length rs \<le> 1) \<and>
        length (messages s) \<le> length (messages s')"
      by blast
  qed
  moreover have "apply_command s (librarian m ask s) = s"
    by (rule apply_librarian)
  moreover have "length (messages (apply_command s (generator m s))) = 2"
    by (simp add: apply_generator)
  ultimately show ?thesis by blast
qed

theorem helper_calls_append_only_witness:
  "invoke_tool (marshall_of stub_rejects stub_llm) tool_request_state =
     Inr \<lparr>messages = messages tool_request_state @ [ToolMessage ''c1'' ''2+2'']\<rparr> \<and>
   (\<exists>rs. messages tool_request_state @ [ToolMessage ''c1'' ''2+2''] =
      messages tool_request_state @ rs \<and> length rs \<le> 1) \<and>
   (\<exists>r. messages (invoke (marshall_of stub_rejects stub_llm) tool_request_state) =
      messages tool_request_state @ [r]) \<and>
   length (messages (invoke (marshall_of stub_rejects stub_llm) tool_request_state)) = 3 \<and>
   (\<exists>r. messages (invoke (marshall_of stub_rejects stub_llm) \<lparr>messages = []\<rparr>) = [r]) \<and>
   length (messages (invoke (marshall_of stub_rejects stub_llm) \<lparr>messages = []\<rparr>)) = 1"
proof -
  let ?m = "marshall_of stub_rejects stub_llm"
  let ?s' = "\<lparr>messages = messages tool_request_state @ [ToolMessage ''c1'' ''2+2'']\<rparr>"
  have h: "invoke_tool ?m tool_request_state = Inr ?s'"
    by (simp add: invoke_tool_def tool_request_state_def calculator_call_def call_tool_def
        marshall_of_def SystemHelper_init_def tool_registry_def calculator_tool_def
        calculator_def Let_def)
  have l: "length (messages tool_request_state) = 2"
    by (simp add: tool_request_state_def)
  note t = helper_calls_append_only [of ?m tool_request_state "''What is the population?''"]
  note n = helper_calls_append_only [of ?m "\<lparr>messages = []\<rparr>" "''What is the population?''"]
  from t have "\<forall>s'. invoke_tool ?m tool_request_state = Inr s' \<longrightarrow>
      (\<exists>rs. messages s' = messages tool_request_state @ rs \<and> length rs \<le> 1) \<and>
      length (messages tool_request_state) \<le> length (messages s')"
    by blast
  with h have a: "\<exists>rs. messages ?s' = messages tool_request_state @ rs \<and> length rs \<le> 1"
    by blast
  from t have b: "\<exists>r. messages (invoke ?m tool_request_state) = messages tool_request_state @ [r]"
    by blast
  from t l have c: "length (messages (invoke ?m tool_request_state)) = 3"
    by simp
  from n have d: "\<exists>r. messages (invoke ?m \<lparr>messages = []\<rparr>) = [r]"
    by simp
  from n have e: "length (messages (invoke ?m \<lparr>messages = []\<rparr>)) = 1"
    by simp
  from h a b c d e show ?thesis by simp
qed

section \<open>The librarian step\<close>

text \<open>
  C3, as stated: after the Librarian step the conversation state contains one new Human
  message followed by one new Assistant message. The librarian's command has no update:
  the state after the step is the state before it.
\<close>

theorem librarian_state_counterexample:
  "messages (apply_command world_state
      (librarian (marshall_of stub_rejects stub_llm) ''What is the population?'' world_state)) =
     [SystemMessage WORLD_LIBRARIAN_PROMPT, AIMessage ''A city of canals.'' []]"
  by (simp add: apply_librarian world_state_def)

text \<open>
  C3, amended: the Librarian step hands the model the state followed by one new Human
  message (the input) and gets back that state followed by one new Assistant message,
  which it prints; its command is \<open>goto = END\<close> with no update, so the conversation state
  of the run is left as it was.
\<close>

theorem librarian_step:
  "is_AIMessage (last (messages (librarian_invoked m ask s))) \<and>
   messages (librarian_invoked m ask s) =
     messages s @ [HumanMessage ask, last (messages (librarian_invoked m ask s))] \<and>
   librarian m ask s = \<lparr>update = None, goto = END\<rparr> \<and>
   apply_command s (librarian m ask s) = s"
proof -
  let ?asked = "\<lparr>messages = messages s @ [HumanMessage ask]\<rparr>"
  have "is_AIMessage (last (messages (invoke m ?asked)))"
    by (rule last_invoke_is_AIMessage)
  moreover have "messages (invoke m ?asked) =
      messages s @ [HumanMessage ask, last (messages (invoke m ?asked))]"
    using invoke_appends_last [of m ?asked] by simp
  moreover note librarian_command [of m ask s] apply_librarian [of s m ask]
  ultimately show ?thesis by (simp add: librarian_invoked_def)
qed

section \<open>Tool dispatch\<close>

text \<open>
  C4, as stated: when a registered tool fails, dispatch wraps the failure into a Tool
  message instead of propagating the exception. Here the calculator is registered with an
  implementation that fails: \<open>_call_tool\<close> lets the exception through, and the message
  that \<open>invoke_tool\<close> appends is an Assistant message, not a Tool message.
\<close>

theorem failing_tool_counterexample:
  "call_tool failing_marshall ''calculator'' [(''expression'', ''2+2'')] ''c1'' =
     Inl (OtherException ''division by zero'') \<and>
   invoke_tool failing_marshall tool_request_state =
     Inr \<lparr>messages = messages tool_request_state @ [AIMessage ''division by zero'' []]\<rparr> \<and>
   \<not> is_ToolMessage (last (messages (projr (invoke_tool failing_marshall tool_request_state))))"
  by (simp add: invoke_tool_def tool_request_state_def calculator_call_def call_tool_def
      failing_marshall_def SystemHelper_init_def failing_tool_def Let_def)

text \<open>
  C4, amended: for every tool call whose name is registered, if the tool implementation
  fails during invocation, \<open>_call_tool\<close> propagates the exception and \<open>invoke_tool\<close>
  catches it and appends one Assistant message whose content is the text of the error;
  \<open>invoke_tool\<close> returns normally, so the routing loop does not crash.
\<close>

theorem tool_failure_wrapped:
  assumes "messages s \<noteq> []"
    and "last (messages s) = AIMessage c (t # rest)"
    and "self_tool_registry m (tc_name t) = Some f"
    and "f (tc_args t) = Inl e"
  shows "call_tool m (tc_name t) (tc_args t) (tc_id t) = Inl e \<and>
         invoke_tool m s = Inr (s\<lparr>messages := messages s @ [AIMessage (str_exn e) []]\<rparr>)"
proof -
  from assms(3,4) have c: "call_tool m (tc_name t) (tc_args t) (tc_id t) = Inl e"
    by (simp add: call_tool_def)
  with invoke_tool_dispatch [OF assms(1,2), of m] show ?thesis by simp
qed

theorem tool_failure_wrapped_witness:
  "messages tool_request_state \<noteq> [] \<and>
   last (messages tool_request_state) =
     AIMessage [] [calculator_call ''2+2'' ''c1'', calculator_call ''3+3'' ''c2''] \<and>
   self_tool_registry failing_marshall (tc_name (calculator_call ''2+2'' ''c1'')) =
     Some failing_tool \<and>
   failing_tool (tc_args (calculator_call ''2+2'' ''c1'')) =
     Inl (OtherException ''division by zero'') \<and>
   invoke_tool failing_marshall tool_request_state =
     Inr \<lparr>messages = [HumanMessage ''What is 2+2?'',
                       AIMessage [] [calculator_call ''2+2'' ''c1'', calculator_call ''3+3'' ''c2''],
                       AIMessage ''division by zero'' []]\<rparr>"
proof -
  have h1: "messages tool_request_state \<noteq> []"
    by (simp add: tool_request_state_def)
  have h2: "last (messages tool_request_state) =
      AIMessage [] [calculator_call ''2+2'' ''c1'', calculator_call ''3+3'' ''c2'']"
    by (simp add: tool_request_state_def)
  have h3: "self_tool_registry failing_marshall (tc_name (calculator_call ''2+2'' ''c1'')) =
      Some failing_tool"
    by (simp add: failing_marshall_def SystemHelper_init_def calculator_call_def)
  have h4: "failing_tool (tc_args (calculator_call ''2+2'' ''c1'')) =
      Inl (OtherException ''division by zero'')"
    by (simp add: failing_tool_def)
  from tool_failure_wrapped [OF h1 h2 h3 h4] h1 h2 h3 h4 show ?thesis
    by (simp add: tool_request_state_def)
qed

section \<open>Failure of the model caller\<close>

text \<open>
  C5, as stated: a failure of the model caller during a Role Step becomes exactly one
  Assistant message appended to the conversation state. When the generator's call fails
  on the seed, the state after the step is the librarian's prompt and the diagnostic: the
  seed's messages are gone, the diagnostic is not appended to them. When the librarian's
  call fails, the state after the step is what it was: the diagnostic is not in it, and
  it is not in the final state of the run.
\<close>

theorem model_failure_state_counterexample:
  "self_llm (marshall_of stub_rejects failing_llm) (messages seed_state) =
     Inl (OtherException ''Connection error.'') \<and>
   messages (apply_command seed_state
      (generator (marshall_of stub_rejects failing_llm) seed_state)) =
     [SystemMessage WORLD_LIBRARIAN_PROMPT, AIMessage ''Connection error.'' []] \<and>
   self_llm (marshall_of stub_rejects flaky_llm)
      (messages world_state @ [HumanMessage ''What is the population?'']) =
     Inl (OtherException ''Connection error.'') \<and>
   messages (apply_command world_state
      (librarian (marshall_of stub_rejects flaky_llm) ''What is the population?'' world_state)) =
     [SystemMessage WORLD_LIBRARIAN_PROMPT, AIMessage ''A city of canals.'' []] \<and>
   graph_invoke (marshall_of stub_rejects flaky_llm) ''What is the population?'' seed_state =
     Some \<lparr>messages = [SystemMessage WORLD_LIBRARIAN_PROMPT, AIMessage ''A city of canals.'' []]\<rparr>"
  by (simp add: apply_generator apply_librarian graph_invoke_result last_invoke
      marshall_of_def SystemHelper_init_def failing_llm_def flaky_llm_def
      seed_state_def world_state_def)

text \<open>
  C5, amended: for every conversation state, a failure of the model caller is caught
  inside \<open>invoke\<close> and converted into exactly one Assistant message whose content is the
  text of the error, appended to the messages that \<open>invoke\<close> was given. In the Generator
  step that diagnostic is the response of the command's delta
  [new System message, diagnostic], which goes to the Librarian and replaces the state of
  the run. In the Librarian step the diagnostic is appended to the step's own copy of the
  state, after the Human message of the input; the command is \<open>goto = END\<close> with no
  update and the state of the run is left as it was. In both cases the step returns its
  command, and the run ends with a final state.
\<close>

theorem model_failure_in_steps:
  "(self_llm m (messages s) = Inl e \<longrightarrow>
      messages (invoke m s) = messages s @ [AIMessage (str_exn e) []] \<and>
      generator m s =
        \<lparr>update = Some [SystemMessage WORLD_LIBRARIAN_PROMPT, AIMessage (str_exn e) []],
         goto = Librarian\<rparr> \<and>
      messages (apply_command s (generator m s)) =
        [SystemMessage WORLD_LIBRARIAN_PROMPT, AIMessage (str_exn e) []] \<and>
      graph_invoke m ask s =
        Some \<lparr>messages = [SystemMessage WORLD_LIBRARIAN_PROMPT, AIMessage (str_exn e) []]\<rparr>) \<and>
   (self_llm m (messages s @ [HumanMessage ask]) = Inl e \<longrightarrow>
      messages (librarian_invoked m ask s) =
        messages s @ [HumanMessage ask, AIMessage (str_exn e) []] \<and>
      librarian m ask s = \<lparr>update = None, goto = END\<rparr> \<and>
      apply_command s (librarian m ask s) = s) \<and>
   graph_invoke m ask s =
     Some \<lparr>messages = [SystemMessage WORLD_LIBRARIAN_PROMPT, last (messages (invoke m s))]\<rparr>"
proof (intro conjI impI)
  assume f: "self_llm m (messages s) = Inl e"
  then show "messages (invoke m s) = messages s @ [AIMessage (str_exn e) []]"
    by (simp add: invoke_appends)
  from f show "generator m s =
      \<lparr>update = Some [SystemMessage WORLD_LIBRARIAN_PROMPT, AIMessage (str_exn e) []],
       goto = Librarian\<rparr>"
    by (simp add: generator_command last_invoke)
  from f show "messages (apply_command s (generator m s)) =
      [SystemMessage WORLD_LIBRARIAN_PROMPT, AIMessage (str_exn e) []]"
    by (simp add: apply_generator last_invoke)
  from f show "graph_invoke m ask s =
      Some \<lparr>messages = [SystemMessage WORLD_LIBRARIAN_PROMPT, AIMessage (str_exn e) []]\<rparr>"
    by (simp add: graph_invoke_result last_invoke)
next
  assume "self_llm m (messages s @ [HumanMessage ask]) = Inl e"
  then show "messages (librarian_invoked m ask s) =
      messages s @ [HumanMessage ask, AIMessage (str_exn e) []]"
    by (simp add: librarian_invoked_def invoke_appends)
next
  show "librarian m ask s = \<lparr>update = None, goto = END\<rparr>"
    by (rule librarian_command)
next
  show "apply_command s (librarian m ask s) = s"
    by (rule apply_librarian)
next
  show "graph_invoke m ask s =
      Some \<lparr>messages = [SystemMessage WORLD_LIBRARIAN_PROMPT, last (messages (invoke m s))]\<rparr>"
    by (simp add: graph_invoke_result)
qed

theorem model_failure_in_steps_witness:
  "self_llm (marshall_of stub_rejects failing_llm) (messages seed_state) =
     Inl (OtherException ''Connection error.'') \<and>
   messages (invoke (marshall_of stub_rejects failing_llm) seed_state) =
     [SystemMessage ''You are a generator'', HumanMessage ''Describe a city'',
      AIMessage ''Connection error.'' []] \<and>
   generator (marshall_of stub_rejects failing_llm) seed_state =
     \<lparr>update = Some [SystemMessage WORLD_LIBRARIAN_PROMPT, AIMessage ''Connection error.'' []],
      goto = Librarian\<rparr> \<and>
   graph_invoke (marshall_of stub_rejects failing_llm) ''What is the population?'' seed_state =
     Some \<lparr>messages = [SystemMessage WORLD_LIBRARIAN_PROMPT, AIMessage ''Connection error.'' []]\<rparr> \<and>
   self_llm (marshall_of stub_rejects flaky_llm)
      (messages world_state @ [HumanMessage ''What is the population?'']) =
     Inl (OtherException ''Connection error.'') \<and>
   messages (librarian_invoked (marshall_of stub_rejects flaky_llm)
      ''What is the population?'' world_state) =
     [SystemMessage WORLD_LIBRARIAN_PROMPT, AIMessage ''A city of canals.'' [],
      HumanMessage ''What is the population?'', AIMessage ''Connection error.'' []] \<and>
   apply_command world_state
      (librarian (marshall_of stub_rejects flaky_llm) ''What is the population?'' world_state) =
     world_state"
proof -
  let ?f = "marshall_of stub_rejects failing_llm"
  let ?k = "marshall_of stub_rejects flaky_llm"
  let ?ask = "''What is the population?''"
  let ?e = "OtherException ''Connection error.''"
  have h1: "self_llm ?f (messages seed_state) = Inl ?e"
    by (simp add: marshall_of_def SystemHelper_init_def failing_llm_def)
  have h2: "self_llm ?k (messages world_state @ [HumanMessage ?ask]) = Inl ?e"
    by (simp add: marshall_of_def SystemHelper_init_def flaky_llm_def world_state_def)
  note g = model_failure_in_steps [of ?f seed_state ?e ?ask]
  note l = model_failure_in_steps [of ?k world_state ?e ?ask]
  from g h1 have a: "messages (invoke ?f seed_state) = messages seed_state @ [AIMessage (str_exn ?e) []]"
    by blast
  from g h1 have b: "generator ?f seed_state =
      \<lparr>update = Some [SystemMessage WORLD_LIBRARIAN_PROMPT, AIMessage (str_exn ?e) []],
       goto = Librarian\<rparr>"
    by blast
  from g h1 have c: "graph_invoke ?f ?ask seed_state =
      Some \<lparr>messages = [SystemMessage WORLD_LIBRARIAN_PROMPT, AIMessage (str_exn ?e) []]\<rparr>"
    by blast
  from l h2 have d: "messages (librarian_invoked ?k ?ask world_state) =
      messages world_state @ [HumanMessage ?ask, AIMessage (str_exn ?e) []]"
    by blast
  from l h2 have e: "apply_command world_state (librarian ?k ?ask world_state) = world_state"
    by blast
  from a have a': "messages (invoke ?f seed_state) =
      [SystemMessage ''You are a generator'', HumanMessage ''Describe a city'',
       AIMessage ''Connection error.'' []]"
    by (simp add: seed_state_def)
  from b have b': "generator ?f seed_state =
      \<lparr>update = Some [SystemMessage WORLD_LIBRARIAN_PROMPT, AIMessage ''Connection error.'' []],
       goto = Librarian\<rparr>"
    by simp
  from c have c': "graph_invoke ?f ?ask seed_state =
      Some \<lparr>messages = [SystemMessage WORLD_LIBRARIAN_PROMPT, AIMessage ''Connection error.'' []]\<rparr>"
    by simp
  from d have d': "messages (librarian_invoked ?k ?ask world_state) =
      [SystemMessage WORLD_LIBRARIAN_PROMPT, AIMessage ''A city of canals.'' [],
       HumanMessage ?ask, AIMessage ''Connection error.'' []]"
    by (simp add: world_state_def)
  from h1 a' b' c' h2 d' e show ?thesis by blast
qed

section \<open>Unregistered tools\<close>

text \<open>
  C6: for every tool call whose name is not a key of the registry, \<open>_call_tool\<close> raises the
  \<open>NameError\<close> that reports the missing tool, whatever the registry holds under other
  names (no tool is invoked), and \<open>invoke_tool\<close> returns normally with the text of that
  error appended as one message, so the run does not halt.
\<close>

theorem unregistered_tool_not_found:
  assumes "messages s \<noteq> []"
    and "last (messages s) = AIMessage c (t # rest)"
    and "self_tool_registry m (tc_name t) = None"
  shows "call_tool m (tc_name t) (tc_args t) (tc_id t) =
           Inl (NameError (tool_not_found_text (tc_name t))) \<and>
         invoke_tool m s =
           Inr (s\<lparr>messages := messages s @ [AIMessage (tool_not_found_text (tc_name t)) []]\<rparr>)"
proof -
  from assms(3) have "call_tool m (tc_name t) (tc_args t) (tc_id t) =
      Inl (NameError (tool_not_found_text (tc_name t)))"
    by (simp add: call_tool_def)
  with invoke_tool_dispatch [OF assms(1,2), of m] show ?thesis by simp
qed

theorem unregistered_tool_not_found_witness:
  "messages unknown_tool_state \<noteq> [] \<and>
   last (messages unknown_tool_state) =
     AIMessage [] [\<lparr>tc_name = ''weather'', tc_args = [], tc_id = ''c7''\<rparr>] \<and>
   self_tool_registry (marshall_of stub_rejects stub_llm) ''weather'' = None \<and>
   call_tool (marshall_of stub_rejects stub_llm) ''weather'' [] ''c7'' =
     Inl (NameError (tool_not_found_text ''weather'')) \<and>
   invoke_tool (marshall_of stub_rejects stub_llm) unknown_tool_state =
     Inr \<lparr>messages = [HumanMessage ''What is the weather?'',
                       AIMessage [] [\<lparr>tc_name = ''weather'', tc_args = [], tc_id = ''c7''\<rparr>],
                       AIMessage (tool_not_found_text ''weather'') []]\<rparr>"
proof -
  let ?t = "\<lparr>tc_name = ''weather'', tc_args = [], tc_id = ''c7''\<rparr>"
  have h1: "messages unknown_tool_state \<noteq> []"
    by (simp add: unknown_tool_state_def)
  have h2: "last (messages unknown_tool_state) = AIMessage [] [?t]"
    by (simp add: unknown_tool_state_def)
  have h3: "self_tool_registry (marshall_of stub_rejects stub_llm) (tc_name ?t) = None"
    by (simp add: marshall_of_def SystemHelper_init_def tool_registry_def)
  from unregistered_tool_not_found [OF h1 h2 h3] h1 h2 h3 show ?thesis
    by (simp add: unknown_tool_state_def)
qed

section \<open>The Tool message of a successful dispatch\<close>

text \<open>
  C7: for every tool call that dispatch processes successfully (the name is registered and
  the tool returns), \<open>_call_tool\<close> produces exactly one message, a Tool message, and its
  call identifier is the identifier of the call.
\<close>

theorem call_tool_message_id:
  assumes "self_tool_registry m tool_name = Some f"
    and "f tool_args = Inr output"
  shows "call_tool m tool_name tool_args call_id = Inr [ToolMessage call_id output] \<and>
         length (projr (call_tool m tool_name tool_args call_id)) = 1 \<and>
         is_ToolMessage (hd (projr (call_tool m tool_name tool_args call_id))) \<and>
         tool_call_id (hd (projr (call_tool m tool_name tool_args call_id))) = call_id"
  using assms by (simp add: call_tool_def)

theorem call_tool_message_id_witness:
  "self_tool_registry (marshall_of stub_rejects stub_llm) ''calculator'' = Some (calculator_tool stub_rejects) \<and>
   calculator_tool stub_rejects [(''expression'', ''2+2'')] = Inr ''2+2'' \<and>
   call_tool (marshall_of stub_rejects stub_llm) ''calculator'' [(''expression'', ''2+2'')] ''c1'' =
     Inr [ToolMessage ''c1'' ''2+2'']"
proof -
  have h1: "self_tool_registry (marshall_of stub_rejects stub_llm) ''calculator'' = Some (calculator_tool stub_rejects)"
    by (simp add: marshall_of_def SystemHelper_init_def tool_registry_def)
  have h2: "calculator_tool stub_rejects [(''expression'', ''2+2'')] = Inr ''2+2''"
    by (simp add: calculator_tool_def calculator_def)
  from call_tool_message_id [OF h1 h2, of "''c1''"] h1 h2 show ?thesis by simp
qed

section \<open>Single-call dispatch\<close>

text \<open>
  C8: when the last message is an Assistant message, \<open>invoke_tool\<close> dispatches the first of
  its tool calls and no other: what it appends is the result of that one call (the Tool
  message, or the text of the error), whatever calls follow it in the list. When the
  Assistant message carries no tool call, the step is skipped and the state is returned
  as it was.
\<close>

theorem invoke_tool_first_call_only:
  assumes "messages s \<noteq> []"
    and "last (messages s) = AIMessage c tcs"
  shows "invoke_tool m s =
           (case tcs of
              [] \<Rightarrow> Inr s
            | t # rest \<Rightarrow>
                Inr (s\<lparr>messages := messages s @
                  (case call_tool m (tc_name t) (tc_args t) (tc_id t) of
                     Inr response \<Rightarrow> response
                   | Inl e \<Rightarrow> [AIMessage (str_exn e) []])\<rparr>))"
proof (cases tcs)
  case Nil
  with assms show ?thesis by (simp add: invoke_tool_skip)
next
  case (Cons t rest)
  with invoke_tool_dispatch [of s c t rest m] assms show ?thesis
    by (simp split: sum.splits)
qed

theorem invoke_tool_first_call_only_witness:
  "messages tool_request_state \<noteq> [] \<and>
   last (messages tool_request_state) =
     AIMessage [] [calculator_call ''2+2'' ''c1'', calculator_call ''3+3'' ''c2''] \<and>
   invoke_tool (marshall_of stub_rejects stub_llm) tool_request_state =
     Inr \<lparr>messages = [HumanMessage ''What is 2+2?'',
                       AIMessage [] [calculator_call ''2+2'' ''c1'', calculator_call ''3+3'' ''c2''],
                       ToolMessage ''c1'' ''2+2'']\<rparr> \<and>
   messages world_state \<noteq> [] \<and>
   last (messages world_state) = AIMessage ''A city of canals.'' [] \<and>
   invoke_tool (marshall_of stub_rejects stub_llm) world_state = Inr world_state"
proof -
  have h1: "messages tool_request_state \<noteq> []"
    by (simp add: tool_request_state_def)
  have h2: "last (messages tool_request_state) =
      AIMessage [] [calculator_call ''2+2'' ''c1'', calculator_call ''3+3'' ''c2'']"
    by (simp add: tool_request_state_def)
  have h3: "messages world_state \<noteq> []"
    by (simp add: world_state_def)
  have h4: "last (messages world_state) = AIMessage ''A city of canals.'' []"
    by (simp add: world_state_def)
  have c: "call_tool (marshall_of stub_rejects stub_llm) ''calculator'' [(''expression'', ''2+2'')] ''c1'' =
      Inr [ToolMessage ''c1'' ''2+2'']"
    by (simp add: call_tool_def marshall_of_def SystemHelper_init_def tool_registry_def
        calculator_tool_def calculator_def)
  have a: "invoke_tool (marshall_of stub_rejects stub_llm) tool_request_state =
     Inr \<lparr>messages = [HumanMessage ''What is 2+2?'',
                       AIMessage [] [calculator_call ''2+2'' ''c1'', calculator_call ''3+3'' ''c2''],
                       ToolMessage ''c1'' ''2+2'']\<rparr>"
    using invoke_tool_first_call_only [OF h1 h2, of "marshall_of stub_rejects stub_llm"] c
    by (simp add: calculator_call_def tool_request_state_def)
  have b: "invoke_tool (marshall_of stub_rejects stub_llm) world_state = Inr world_state"
    using invoke_tool_first_call_only [OF h3 h4, of "marshall_of stub_rejects stub_llm"] by simp
  from h1 h2 h3 h4 a b show ?thesis by simp
qed

section \<open>Determinism of the run\<close>

text \<open>
  C9: two runs on identical initial message sequences, with model callers that give the
  same answer to the same messages, end with identical final conversation states, and
  both do end. The two model callers need only agree on the initial messages; the tool
  registries and the lines of external input do not reach the final state.
\<close>

theorem graph_invoke_deterministic:
  assumes "messages s1 = messages s2"
    and "self_llm m1 (messages s1) = self_llm m2 (messages s2)"
  shows "graph_invoke m1 ask1 s1 = graph_invoke m2 ask2 s2 \<and>
         graph_invoke m1 ask1 s1 =
           Some \<lparr>messages = [SystemMessage WORLD_LIBRARIAN_PROMPT, last (messages (invoke m1 s1))]\<rparr>"
  using assms by (simp add: graph_invoke_result last_invoke)

theorem graph_invoke_deterministic_witness:
  "messages seed_state = messages seed_state \<and>
   self_llm (marshall_of stub_rejects stub_llm) (messages seed_state) =
     self_llm failing_marshall (messages seed_state) \<and>
   graph_invoke (marshall_of stub_rejects stub_llm) ''What is the population?'' seed_state =
     graph_invoke failing_marshall ''Who rules the city?'' seed_state \<and>
   graph_invoke (marshall_of stub_rejects stub_llm) ''What is the population?'' seed_state =
     Some \<lparr>messages = [SystemMessage WORLD_LIBRARIAN_PROMPT, AIMessage ''A city of canals.'' []]\<rparr>"
proof -
  have h1: "messages seed_state = messages seed_state"
    by simp
  have h2: "self_llm (marshall_of stub_rejects stub_llm) (messages seed_state) =
      self_llm failing_marshall (messages seed_state)"
    by (simp add: marshall_of_def failing_marshall_def SystemHelper_init_def)
  have l: "last (messages (invoke (marshall_of stub_rejects stub_llm) seed_state)) =
      AIMessage ''A city of canals.'' []"
    by (simp add: last_invoke marshall_of_def SystemHelper_init_def stub_llm_def)
  note d = graph_invoke_deterministic [OF h1 h2,
      of "''What is the population?''" "''Who rules the city?''"]
  from d have e: "graph_invoke (marshall_of stub_rejects stub_llm) ''What is the population?'' seed_state =
      graph_invoke failing_marshall ''Who rules the city?'' seed_state"
    by (rule conjunct1)
  from d have "graph_invoke (marshall_of stub_rejects stub_llm) ''What is the population?'' seed_state =
      Some \<lparr>messages = [SystemMessage WORLD_LIBRARIAN_PROMPT,
        last (messages (invoke (marshall_of stub_rejects stub_llm) seed_state))]\<rparr>"
    by (rule conjunct2)
  with l have r: "graph_invoke (marshall_of stub_rejects stub_llm) ''What is the population?'' seed_state =
      Some \<lparr>messages = [SystemMessage WORLD_LIBRARIAN_PROMPT, AIMessage ''A city of canals.'' []]\<rparr>"
    by simp
  from h1 h2 e r show ?thesis by blast
qed

section \<open>The calculator\<close>

text \<open>
  C10: for every expression string the calculator returns the string itself, unevaluated;
  a calculator call dispatched through the registry of the program gives one Tool message
  whose content is the argument expression (for \<open>2+2\<close> the content is \<open>2+2\<close>, not \<open>4\<close>).
\<close>

theorem calculator_returns_expression:
  "calculator expression = expression \<and>
   call_tool (marshall_of rejects model) ''calculator'' [(''expression'', expression)] call_id =
     Inr [ToolMessage call_id expression] \<and>
   call_tool (marshall_of rejects model) ''calculator'' [(''expression'', ''2+2'')] ''c1'' =
     Inr [ToolMessage ''c1'' ''2+2''] \<and>
   ''2+2'' \<noteq> ''4''"
  by (simp add: calculator_def call_tool_def marshall_of_def SystemHelper_init_def
      tool_registry_def calculator_tool_def)

end
